theory Spec2Isabelle
  imports Main
begin

section \<open>The template functions\<close>

text \<open>
  The templates \<open>typesTmpl\<close> and \<open>opsTmpl\<close> call functions that the generator registers
  with the template engine. Their Go definitions are not part of the sources at hand, so the
  templates are modelled over an arbitrary family of them: every theorem about a template
  holds for whatever these functions compute. The namespace functions \<open>setNS\<close>, \<open>getNS\<close>
  and \<open>wrapNS\<close> share one mutable "current namespace" in the generator; here \<open>wrapNS\<close>
  takes the namespace that the enclosing \<open>setNS\<close> call installed as its first argument.
\<close>

record helpers =
  makePublic :: "string \<Rightarrow> string"
  makePrivate :: "string \<Rightarrow> string"
  makeFieldPublic :: "string \<Rightarrow> string"
  replaceReservedWords :: "string \<Rightarrow> string"
  replaceAttrReservedWords :: "string \<Rightarrow> string"
  normalize_T :: "string \<Rightarrow> string"
  removeNS :: "string \<Rightarrow> string"
  setNS :: "string \<Rightarrow> string"
  wrapNS :: "string \<Rightarrow> string \<Rightarrow> string"
  toGoType :: "string \<Rightarrow> bool \<Rightarrow> string"
  removePointerFromType :: "string \<Rightarrow> string"
  goString :: "string \<Rightarrow> string"
  comment_T :: "string \<Rightarrow> string"
  findType :: "string \<Rightarrow> string"
  findSOAPAction :: "string \<Rightarrow> string \<Rightarrow> string"
  findNameByType :: "string \<Rightarrow> string"

section \<open>The schema model read by typesTmpl\<close>

text \<open>
  The fields are the ones the template selects (\<open>.Restriction.Enumeration\<close>,
  \<open>.ComplexContent.Extension.Base\<close>, ...). A Go pointer field that the template tests
  with \<open>if\<close> or \<open>with\<close> is an \<open>option\<close>; a slice is a list; \<open>if\<close> on a string or a slice
  is true when it is not empty.
\<close>

record XSDRestrictionValue =
  en_Doc :: string
  en_Value :: string

datatype XSDSimpleType = XSDSimpleType
  (st_Name: string)
  (st_Doc: string)
  (st_List_ItemType: string)
  (st_Union_MemberTypes: string)
  (st_Union_SimpleType: "XSDSimpleType list")
  (st_Restriction_Base: string)
  (st_Restriction_Enumeration: "XSDRestrictionValue list")

record XSDAttribute =
  at_Name :: string
  at_Doc :: string
  at_Type :: string

type_synonym XSDAny = unit

datatype XSDElement = XSDElement
  (el_Name: string)
  (el_Doc: string)
  (el_Type: string)
  (el_Ref: string)
  (el_MaxOccurs: string)
  (el_Nillable: bool)
  (el_SimpleType: "XSDSimpleType option")
  (el_ComplexType: "XSDComplexType option")
and XSDComplexType = XSDComplexType
  (ct_Name: string)
  (ct_Sequence: "XSDElement list")
  (ct_Choice: "XSDElement list")
  (ct_SequenceChoice: "XSDElement list")
  (ct_All: "XSDElement list")
  (ct_Any: "XSDAny list")
  (ct_Attributes: "XSDAttribute list")
  (ct_ComplexContent_Extension: XSDExtension)
  (ct_SimpleContent_Extension: XSDExtension)
and XSDExtension = XSDExtension
  (ext_Base: string)
  (ext_Sequence: "XSDElement list")
  (ext_Choice: "XSDElement list")
  (ext_SequenceChoice: "XSDElement list")
  (ext_Attributes: "XSDAttribute list")

record XSDSchema =
  sc_TargetNamespace :: string
  sc_SimpleType :: "XSDSimpleType list"
  sc_Elements :: "XSDElement list"
  sc_ComplexTypes :: "XSDComplexType list"

section \<open>The Go text that typesTmpl writes\<close>

text \<open>
  The output of a template is Go source text. It is modelled by the sequence of
  declarations the text consists of, in the order the template writes them, white space
  aside. A struct member is a comment line \<open>// ...\<close> written by the template itself, the
  text that \<open>comment\<close> makes of a documentation string, an embedded (anonymous) field, or
  a named field with the \<open>[]\<close> marker the template writes before the type, the type, and
  the struct tag as its list of key and value pairs.
\<close>

datatype go_member =
    Comment string
  | DocText string
  | Embedded string
  | Field string bool go_type "(string \<times> string) list"
and go_type =
    TypeText string
  | StructType "go_member list"

record go_const =
  c_doc :: "string option"
  c_name :: string
  c_type :: string
  c_value :: string

datatype go_decl =
    DComment string
  | DDocText string
  | TypeDef string bool string
  | StructDef string "go_member list"
  | ConstBlock "go_const list"
  | MarshalMethods string string

subsection \<open>Enumeration constants (typesTmpl, template "SimpleType" and the local simple type)\<close>

text \<open>
  One line of the \<open>const\<close> block:
  \<^verbatim>\<open>{{if .Doc}} {{.Doc | comment}} {{end}}\<close>
  \<^verbatim>\<open>{{$typeName}}{{$value := replaceReservedWords .Value}}{{$value | makePublic}} {{$typeName}} = "{{goString .Value}}"\<close>
\<close>

definition doc_comment :: "helpers \<Rightarrow> string \<Rightarrow> string option" where
  "doc_comment h doc = (if doc \<noteq> [] then Some (comment_T h doc) else None)"

definition enum_const :: "helpers \<Rightarrow> string \<Rightarrow> XSDRestrictionValue \<Rightarrow> go_const" where
  "enum_const h typeName e =
     \<lparr> c_doc = doc_comment h (en_Doc e),
       c_name = typeName @ makePublic h (replaceReservedWords h (en_Value e)),
       c_type = typeName,
       c_value = goString h (en_Value e) \<rparr>"

definition enum_consts :: "helpers \<Rightarrow> string \<Rightarrow> XSDRestrictionValue list \<Rightarrow> go_const list" where
  "enum_consts h typeName es = map (enum_const h typeName) es"

text \<open>
  The type declaration and the constant block shared by the template "SimpleType" and by
  the local simple type of a top-level element: the chain
  \<open>if ne .List.ItemType ""\<close> / \<open>else if ne .Union.MemberTypes ""\<close> /
  \<open>else if .Union.SimpleType\<close> / \<open>else if .Restriction.Base\<close> / \<open>else\<close>, then
  \<open>if .Restriction.Enumeration\<close>.
\<close>

definition simple_type_decl :: "helpers \<Rightarrow> string \<Rightarrow> XSDSimpleType \<Rightarrow> go_decl" where
  "simple_type_decl h typeName st =
     (if st_List_ItemType st \<noteq> [] then
        TypeDef typeName True (removePointerFromType h (toGoType h (st_List_ItemType st) False))
      else if st_Union_MemberTypes st \<noteq> [] then TypeDef typeName False ''string''
      else if st_Union_SimpleType st \<noteq> [] then TypeDef typeName False ''string''
      else if st_Restriction_Base st \<noteq> [] then
        TypeDef typeName False (removePointerFromType h (toGoType h (st_Restriction_Base st) False))
      else TypeDef typeName False ''interface{}'')"

definition simple_type_consts :: "helpers \<Rightarrow> string \<Rightarrow> XSDSimpleType \<Rightarrow> go_decl list" where
  "simple_type_consts h typeName st =
     (if st_Restriction_Enumeration st \<noteq> []
      then [ConstBlock (enum_consts h typeName (st_Restriction_Enumeration st))]
      else [])"

definition doc_decl :: "helpers \<Rightarrow> string \<Rightarrow> go_decl list" where
  "doc_decl h doc = (if doc \<noteq> [] then [DDocText (comment_T h doc)] else [])"

text \<open>Template "SimpleType"; \<open>ns\<close> is the namespace installed by \<open>setNS\<close>.\<close>

definition SimpleType_T :: "helpers \<Rightarrow> string \<Rightarrow> XSDSimpleType \<Rightarrow> go_decl list" where
  "SimpleType_T h ns st =
     (let typeName = makePublic h (wrapNS h ns (replaceReservedWords h (st_Name st)))
      in [DComment ''SimpleTypeT''] @ doc_decl h (st_Doc st) @
         [simple_type_decl h typeName st] @ simple_type_consts h typeName st)"

text \<open>The constant blocks among a sequence of declarations.\<close>

fun const_blocks :: "go_decl list \<Rightarrow> go_const list list" where
  "const_blocks [] = []"
| "const_blocks (ConstBlock cs # ds) = cs # const_blocks ds"
| "const_blocks (d # ds) = const_blocks ds"

subsection \<open>Struct members: templates "Attributes", "SimpleContent", "Any"\<close>

text \<open>
  Template "Attributes" first sets a variable from \<open>getNS\<close> and never reads it; the model
  leaves the variable out.
\<close>

definition doc_member :: "helpers \<Rightarrow> string \<Rightarrow> go_member list" where
  "doc_member h doc = (if doc \<noteq> [] then [DocText (comment_T h doc)] else [])"

text \<open>The tag \<^verbatim>\<open>xml:"N,omitempty" json:"N,omitempty"\<close>.\<close>

definition omitempty_tag :: "string \<Rightarrow> (string \<times> string) list" where
  "omitempty_tag n = [(''xml'', n @ '',omitempty''), (''json'', n @ '',omitempty'')]"

definition attr_field :: "helpers \<Rightarrow> XSDAttribute \<Rightarrow> go_member" where
  "attr_field h a =
     Field (makeFieldPublic h (normalize_T h (at_Name a))) False
       (TypeText (if at_Type a \<noteq> [] then toGoType h (at_Type a) False else ''string''))
       [(''xml'', at_Name a @ '',attr,omitempty''), (''json'', at_Name a @ '',omitempty'')]"

definition Attribute_T :: "helpers \<Rightarrow> XSDAttribute \<Rightarrow> go_member list" where
  "Attribute_T h a = doc_member h (at_Doc a) @ [attr_field h a]"

definition Attributes_T :: "helpers \<Rightarrow> XSDAttribute list \<Rightarrow> go_member list" where
  "Attributes_T h as = Comment ''Attributes'' # concat (map (Attribute_T h) as)"

text \<open>The field \<^verbatim>\<open>Value T `xml:",chardata" json:"-,"`\<close> of template "SimpleContent".\<close>

definition chardata_field :: "helpers \<Rightarrow> string \<Rightarrow> go_member" where
  "chardata_field h base =
     Field ''Value'' False (TypeText (toGoType h base False))
       [(''xml'', '',chardata''), (''json'', ''-,'')]"

definition SimpleContent_T :: "helpers \<Rightarrow> XSDExtension \<Rightarrow> go_member list" where
  "SimpleContent_T h ext =
     [Comment ''SimpleContent'', chardata_field h (ext_Base ext)] @
     Attributes_T h (ext_Attributes ext)"

definition Any_T :: "XSDAny list \<Rightarrow> go_member list" where
  "Any_T anys =
     Comment ''Any'' #
     map (\<lambda>_. Field ''Items'' True (TypeText ''string'') [(''xml'', '',any''), (''json'', ''items,omitempty'')])
       anys"

subsection \<open>Templates "Elements", "ComplexTypeInline" and "ComplexContent"\<close>

text \<open>
  The three templates call each other: an element without \<open>ref\<close>, \<open>type\<close> and simple type
  is written by "ComplexTypeInline", whose struct body runs "ComplexContent" or "Elements"
  again. \<open>Element_T\<close> is the body of the \<open>range\<close> of "Elements" for one element,
  \<open>inline_body\<close> the \<open>with .ComplexType\<close> block of "ComplexTypeInline".
\<close>

fun Elements_range :: "helpers \<Rightarrow> XSDElement list \<Rightarrow> go_member list"
and Element_T :: "helpers \<Rightarrow> XSDElement \<Rightarrow> go_member list"
and inline_body :: "helpers \<Rightarrow> XSDComplexType \<Rightarrow> go_member list"
and ComplexContent_T :: "helpers \<Rightarrow> XSDExtension \<Rightarrow> go_member list"
where
  "Elements_range h [] = []"
| "Elements_range h (e # es) = Element_T h e @ Elements_range h es"
| "Element_T h (XSDElement name doc type ref maxOccurs nillable simpleType complexType) =
     (if ref \<noteq> [] then
        [Field (makePublic h (replaceReservedWords h (removeNS h ref)))
           (maxOccurs = ''unbounded'') (TypeText (toGoType h ref nillable))
           (omitempty_tag (removeNS h ref))]
      else if type = [] then
        (case simpleType of
           Some st \<Rightarrow>
             doc_member h doc @
             (if st_List_ItemType st \<noteq> [] then
                [Field (makeFieldPublic h (normalize_T h name)) True
                   (TypeText (toGoType h (st_List_ItemType st) False)) (omitempty_tag name)]
              else
                [Field (makeFieldPublic h (normalize_T h name)) False
                   (TypeText (toGoType h (st_Restriction_Base st) False)) (omitempty_tag name)])
         | None \<Rightarrow>
             [Comment ''ComplexTypeInline'',
              Field (makePublic h (replaceReservedWords h name)) (maxOccurs = ''unbounded'')
                (StructType (case complexType of None \<Rightarrow> [] | Some ct \<Rightarrow> inline_body h ct))
                (omitempty_tag name)])
      else
        doc_member h doc @
        [Field (makeFieldPublic h (replaceAttrReservedWords h name))
           (maxOccurs = ''unbounded'') (TypeText (toGoType h type nillable))
           (omitempty_tag name)])"
| "inline_body h (XSDComplexType name sequence choice sequenceChoice all anys attributes cc sc) =
     (if ext_Base cc \<noteq> [] then ComplexContent_T h cc
      else if ext_Base sc \<noteq> [] then SimpleContent_T h sc
      else
        (Comment ''ElementsT'' # Elements_range h sequence) @
        (Comment ''ElementsT'' # Elements_range h choice) @
        (Comment ''ElementsT'' # Elements_range h sequenceChoice) @
        (Comment ''ElementsT'' # Elements_range h all) @
        Attributes_T h attributes)"
| "ComplexContent_T h (XSDExtension base sequence choice sequenceChoice attributes) =
     [Comment ''ComplexContent''] @
     (let baseType = toGoType h base False in if baseType \<noteq> [] then [Embedded baseType] else []) @
     (Comment ''ElementsT'' # Elements_range h sequence) @
     (Comment ''ElementsT'' # Elements_range h choice) @
     (Comment ''ElementsT'' # Elements_range h sequenceChoice) @
     Attributes_T h attributes"

text \<open>Template "Elements": its comment line, then the range.\<close>

definition Elements_T :: "helpers \<Rightarrow> XSDElement list \<Rightarrow> go_member list" where
  "Elements_T h es = Comment ''ElementsT'' # Elements_range h es"

subsection \<open>The top-level range of typesTmpl\<close>

text \<open>
  The struct body written for a top-level element's local complex type and for a global
  complex type: as \<open>inline_body\<close>, with template "Any" after the sequence.
\<close>

definition struct_body :: "helpers \<Rightarrow> XSDComplexType \<Rightarrow> go_member list" where
  "struct_body h ct =
     (if ext_Base (ct_ComplexContent_Extension ct) \<noteq> [] then
        ComplexContent_T h (ct_ComplexContent_Extension ct)
      else if ext_Base (ct_SimpleContent_Extension ct) \<noteq> [] then
        SimpleContent_T h (ct_SimpleContent_Extension ct)
      else
        Elements_T h (ct_Sequence ct) @ Any_T (ct_Any ct) @ Elements_T h (ct_Choice ct) @
        Elements_T h (ct_SequenceChoice ct) @ Elements_T h (ct_All ct) @
        Attributes_T h (ct_Attributes ct))"

text \<open>The field \<^verbatim>\<open>XMLName xml.Name `xml:"NS NAME"`\<close>.\<close>

definition XMLName_field :: "string \<Rightarrow> string \<Rightarrow> go_member" where
  "XMLName_field tns n = Field ''XMLName'' False (TypeText ''xml.Name'') [(''xml'', tns @ '' '' @ n)]"

text \<open>
  The methods written after \<open>type N T\<close> when \<open>T\<close> is one of the three SOAP date and time
  types: a \<open>MarshalXML\<close> and an \<open>UnmarshalXML\<close> that convert to \<open>T\<close>.
\<close>

definition marshal_methods :: "string \<Rightarrow> string \<Rightarrow> go_decl list" where
  "marshal_methods typeName type =
     (if type = ''soap.XSDDateTime'' then [MarshalMethods typeName ''soap.XSDDateTime'']
      else if type = ''soap.XSDDate'' then [MarshalMethods typeName ''soap.XSDDate'']
      else if type = ''soap.XSDTime'' then [MarshalMethods typeName ''soap.XSDTime'']
      else [])"

text \<open>
  One pass of \<open>range .Elements\<close>. \<open>ns\<close> is the schema's target namespace, which \<open>setNS\<close>
  installed, and \<open>tns\<close> the value \<open>setNS\<close> returned (\<open>$targetNamespace\<close>). The comment
  \<open>ComplexTypeLocal $targetNamespace\<close> is outside any action, so it is written as it stands.
\<close>

definition top_Element_T :: "helpers \<Rightarrow> string \<Rightarrow> string \<Rightarrow> XSDElement \<Rightarrow> go_decl list" where
  "top_Element_T h ns tns el =
     (let name = el_Name el;
          typeName = makePublic h (wrapNS h ns (replaceReservedWords h name))
      in DComment (''Elements '' @ tns) #
         (if el_Type el = [] then
            (case el_ComplexType el of
               None \<Rightarrow> []
             | Some ct \<Rightarrow>
                 [DComment ''ComplexTypeLocal $targetNamespace'',
                  StructDef typeName (XMLName_field tns name # struct_body h ct)]) @
            (case el_SimpleType el of
               None \<Rightarrow> []
             | Some st \<Rightarrow>
                 [DComment ''SimpleType''] @ doc_decl h (st_Doc st) @
                 [simple_type_decl h typeName st] @ simple_type_consts h typeName st)
          else
            (let type = removePointerFromType h (toGoType h (el_Type el) (el_Nillable el))
             in if typeName \<noteq> type
                then TypeDef typeName False type # marshal_methods typeName type
                else [])))"

text \<open>
  One pass of \<open>range .ComplexTypes\<close>. A complex type whose simple-content extension has no
  attributes and whose base maps to \<open>string\<close> is written as \<open>type N string\<close>; every other
  one as a struct.
\<close>

definition ComplexTypeGlobal_T :: "helpers \<Rightarrow> string \<Rightarrow> string \<Rightarrow> XSDComplexType \<Rightarrow> go_decl list" where
  "ComplexTypeGlobal_T h ns tns ct =
     (let typeName = makePublic h (wrapNS h ns (replaceReservedWords h (ct_Name ct)))
      in DComment (''ComplexTypeGlobal '' @ tns) #
         (if length (ext_Attributes (ct_SimpleContent_Extension ct)) = 0 \<and>
             toGoType h (ext_Base (ct_SimpleContent_Extension ct)) False = ''string''
          then [TypeDef typeName False ''string'']
          else
            [StructDef typeName
               ((let type = findNameByType h (ct_Name ct)
                 in if ct_Name ct \<noteq> type then [XMLName_field tns type] else []) @
                struct_body h ct)]))"

definition Schema_T :: "helpers \<Rightarrow> XSDSchema \<Rightarrow> go_decl list" where
  "Schema_T h sch =
     (let ns = sc_TargetNamespace sch; tns = setNS h ns
      in DComment (''Schema '' @ tns) #
         concat (map (SimpleType_T h ns) (sc_SimpleType sch)) @
         concat (map (top_Element_T h ns tns) (sc_Elements sch)) @
         concat (map (ComplexTypeGlobal_T h ns tns) (sc_ComplexTypes sch)))"

definition typesTmpl :: "helpers \<Rightarrow> XSDSchema list \<Rightarrow> go_decl list" where
  "typesTmpl h schemas = concat (map (Schema_T h) schemas)"

text \<open>The named fields among the members of a struct, and the \<open>[]\<close> markers of those.\<close>

fun fields_of :: "go_member list \<Rightarrow> go_member list" where
  "fields_of [] = []"
| "fields_of (Field n s t tag # ms) = Field n s t tag # fields_of ms"
| "fields_of (m # ms) = fields_of ms"

fun field_slices :: "go_member list \<Rightarrow> bool list" where
  "field_slices [] = []"
| "field_slices (Field n s t tag # ms) = s # field_slices ms"
| "field_slices (m # ms) = field_slices ms"


text \<open>The fields whose tag marks them as the character data of the element.\<close>

fun is_chardata :: "go_member \<Rightarrow> bool" where
  "is_chardata (Field n s t tag) = (map_of tag ''xml'' = Some '',chardata'')"
| "is_chardata m = False"

section \<open>opsTmpl\<close>

text \<open>
  The port types of the WSDL, as far as the template reads them: of a port type its name and
  operations; of an operation its name, documentation, faults and the message names of its
  input and output.
\<close>

record WSDLFault =
  fault_Name :: string
  fault_Doc :: string

record WSDLOperation =
  op_Name :: string
  op_Doc :: string
  op_Faults :: "WSDLFault list"
  op_Input_Message :: string
  op_Output_Message :: string

record WSDLPortType =
  pt_Name :: string
  pt_Operations :: "WSDLOperation list"

text \<open>
  A method signature \<open>Name (p1 T1, ...) (R1, ...)\<close> is its name, its parameters (name and
  type) and its result types. A method of the interface carries the faults listed in the
  comment above it and its documentation comment. A method of the implementation carries
  the receiver type, the type given to \<open>new\<close>, the text written between the double quotes
  of the second argument of \<open>service.client.Call\<close>, and the expressions of its two
  \<open>return\<close> statements.
\<close>

record method_sig =
  m_name :: string
  m_params :: "(string \<times> string) list"
  m_results :: "string list"

record iface_method =
  im_faults :: "(string \<times> string) list"
  im_doc :: "string option"
  im_sig :: method_sig

record impl_method =
  om_receiver :: string
  om_sig :: method_sig
  om_new :: string
  om_action :: string
  om_error_return :: "string list"
  om_return :: "string list"

datatype ops_decl =
    OInterface string "iface_method list"
  | OStruct string "go_member list"
  | OConstructor string string string
  | OMethod impl_method

text \<open>
  \<^verbatim>\<open>{{$requestType := findType .Input.Message | replaceReservedWords | makePublic}}\<close> and
  \<^verbatim>\<open>{{$responseType := findType .Output.Message | replaceReservedWords | makePublic}}\<close>
\<close>

definition requestType :: "helpers \<Rightarrow> WSDLOperation \<Rightarrow> string" where
  "requestType h op = makePublic h (replaceReservedWords h (findType h (op_Input_Message op)))"

definition responseType :: "helpers \<Rightarrow> WSDLOperation \<Rightarrow> string" where
  "responseType h op = makePublic h (replaceReservedWords h (findType h (op_Output_Message op)))"

text \<open>
  The signature, written the same way in the interface and in the implementation:
  \<^verbatim>\<open>{{makePublic .Name | replaceReservedWords}} (ctx context.Context, {{if ne $requestType ""}}request *{{$requestType}}{{end}}) ({{if ne $responseType ""}}*{{$responseType}}, {{end}}error)\<close>
\<close>

definition op_sig :: "helpers \<Rightarrow> WSDLOperation \<Rightarrow> method_sig" where
  "op_sig h op =
     \<lparr> m_name = replaceReservedWords h (makePublic h (op_Name op)),
       m_params =
         (''ctx'', ''context.Context'') #
         (if requestType h op \<noteq> [] then [(''request'', ''*'' @ requestType h op)] else []),
       m_results =
         (if responseType h op \<noteq> [] then [''*'' @ responseType h op] else []) @ [''error''] \<rparr>"

definition op_iface_method :: "helpers \<Rightarrow> WSDLOperation \<Rightarrow> iface_method" where
  "op_iface_method h op =
     \<lparr> im_faults =
         (if length (op_Faults op) > 0
          then map (\<lambda>f. (fault_Name f, fault_Doc f)) (op_Faults op) else []),
       im_doc = (if op_Doc op \<noteq> [] then Some (op_Doc op) else None),
       im_sig = op_sig h op \<rparr>"

text \<open>
  The text between the double quotes of the call's second argument:
  \<^verbatim>\<open>"{{if ne $soapAction ""}}{{$soapAction}}{{else}}''{{end}}"\<close>, with
  \<^verbatim>\<open>{{$soapAction := findSOAPAction .Name $privateType}}\<close>. The \<open>else\<close> branch writes two
  apostrophes.
\<close>

definition action_text :: "helpers \<Rightarrow> string \<Rightarrow> WSDLOperation \<Rightarrow> string" where
  "action_text h privateType op =
     (let soapAction = findSOAPAction h (op_Name op) privateType
      in if soapAction \<noteq> [] then soapAction else [CHR 0x27, CHR 0x27])"

definition op_impl_method :: "helpers \<Rightarrow> string \<Rightarrow> WSDLOperation \<Rightarrow> impl_method" where
  "op_impl_method h privateType op =
     \<lparr> om_receiver = ''*'' @ privateType,
       om_sig = op_sig h op,
       om_new = responseType h op @ ''Body'',
       om_action = action_text h privateType op,
       om_error_return = (if responseType h op \<noteq> [] then [''nil''] else []) @ [''err''],
       om_return =
         (if responseType h op \<noteq> [] then [''&response.'' @ responseType h op] else []) @ [''nil''] \<rparr>"

text \<open>The second \<open>range .Operations\<close>: two body structs and the method, per operation.\<close>

definition Operation_T :: "helpers \<Rightarrow> string \<Rightarrow> WSDLOperation \<Rightarrow> ops_decl list" where
  "Operation_T h privateType op =
     [OStruct (requestType h op @ ''Body'')
        [Field (requestType h op) False (TypeText (requestType h op)) []],
      OStruct (responseType h op @ ''Body'')
        [Embedded ''soap.EnvelopeResponseBody'',
         Field (responseType h op) False (TypeText (responseType h op)) []],
      OMethod (op_impl_method h privateType op)]"

text \<open>The field \<open>client *soap.Client\<close> of the implementation struct.\<close>

definition client_field :: go_member where
  "client_field = Field ''client'' False (TypeText ''*soap.Client'') []"

definition PortType_T :: "helpers \<Rightarrow> WSDLPortType \<Rightarrow> ops_decl list" where
  "PortType_T h pt =
     (let privateType = makePrivate h (pt_Name pt);
          exportType = makePublic h (pt_Name pt)
      in [OInterface exportType (map (op_iface_method h) (pt_Operations pt)),
          OStruct privateType [client_field],
          OConstructor (''New'' @ exportType) exportType privateType] @
         concat (map (Operation_T h privateType) (pt_Operations pt)))"

definition opsTmpl :: "helpers \<Rightarrow> WSDLPortType list \<Rightarrow> ops_decl list" where
  "opsTmpl h pts = concat (map (PortType_T h) pts)"

text \<open>
  The interface types, the structs that hold exactly the client field, and the methods among
  a sequence of declarations.
\<close>

fun interfaces_of :: "ops_decl list \<Rightarrow> (string \<times> iface_method list) list" where
  "interfaces_of [] = []"
| "interfaces_of (OInterface n ms # ds) = (n, ms) # interfaces_of ds"
| "interfaces_of (d # ds) = interfaces_of ds"

fun client_structs_of :: "ops_decl list \<Rightarrow> string list" where
  "client_structs_of [] = []"
| "client_structs_of (OStruct n ms # ds) =
     (if ms = [client_field] then n # client_structs_of ds else client_structs_of ds)"
| "client_structs_of (d # ds) = client_structs_of ds"

fun methods_of :: "ops_decl list \<Rightarrow> impl_method list" where
  "methods_of [] = []"
| "methods_of (OMethod m # ds) = m # methods_of ds"
| "methods_of (d # ds) = methods_of ds"

section \<open>The command (cmd/gowsdl/main.go)\<close>

text \<open>
  The command's effects are made explicit. The world is the content of the files and the
  trace of what the run did to the outside: the calls into the generator, the directory it
  makes, the files it creates, what it writes to them and the \<open>goimports\<close> processes it
  starts. An error is its message.
\<close>

datatype event =
    CallNewGoWSDL string
  | CallStart
  | Mkdir string
  | Create string
  | Write string string
  | RunGoimports string

record world =
  files :: "string \<rightharpoonup> string"
  trace :: "event list"

text \<open>
  What the command calls and does not define: the generator (\<open>gen.NewGoWSDL\<close> and its
  method \<open>Start\<close>, with \<open>'g\<close> the generator's value), \<open>format.Source\<close>, \<open>filepath.Join\<close>,
  whether \<open>os.Create\<close> of a path succeeds (\<open>None\<close>) or fails with an error, and what
  \<open>goimports -w\<close> makes of a file's content. Every theorem about the command holds for
  whatever these compute.
\<close>

record 'g env =
  NewGoWSDL :: "string \<Rightarrow> string \<Rightarrow> bool \<Rightarrow> bool \<Rightarrow> (string \<times> string) list \<Rightarrow> string + 'g"
  Start :: "'g \<Rightarrow> string + (string \<rightharpoonup> string)"
  format_Source :: "string \<Rightarrow> string + string"
  filepath_Join :: "string \<Rightarrow> string \<Rightarrow> string"
  os_Create :: "world \<Rightarrow> string \<Rightarrow> string option"
  goimports :: "string \<Rightarrow> string \<Rightarrow> string + string"

text \<open>
  The flag variables after \<open>flag.Parse\<close>. Parsing is the standard library's: the values of
  the flags are an input of the model, beside \<open>os.Args\<close>.
\<close>

record flags =
  flag_vers :: bool
  flag_pkg :: string
  flag_outFile :: string
  flag_dir :: string
  flag_insecure :: bool
  flag_makePublic :: bool

text \<open>
  \<open>log.Fatalln\<close> ends the process with the message; \<open>os.Exit(0)\<close> ends it after the version
  or the usage was printed. What the command prints is not part of the model.
\<close>

datatype status = Exit0 | Fatal string | Done

datatype outfile_result = Exited string | Returned "string option"

definition prefix :: "(string \<times> string) list" where
  "prefix =
     [(''http://schemas.xmlsoap.org/wsdl/soap12/'', ''Soap''),
      (''http://www.onvif.org/ver10/media/wsdl'', ''Media''),
      (''http://www.onvif.org/ver10/schema'', ''Onvif''),
      (''http://docs.oasis-open.org/wsn/b-2'', ''B2'')]"

text \<open>\<open>gocode[key]\<close>: a missing key of a Go map reads as the empty byte slice.\<close>

definition gocode_get :: "(string \<rightharpoonup> string) \<Rightarrow> string \<Rightarrow> string" where
  "gocode_get gocode key = (case gocode key of None \<Rightarrow> [] | Some v \<Rightarrow> v)"

text \<open>The buffer \<open>data\<close> of \<open>outfile\<close>: the header or the imports, then the artifact.\<close>

definition artifact_data :: "(string \<rightharpoonup> string) \<Rightarrow> string \<Rightarrow> string" where
  "artifact_data gocode key =
     (if key = ''types'' then gocode_get gocode ''header'' else gocode_get gocode ''imports'') @
     gocode_get gocode key"

text \<open>\<open>os.Create\<close> makes the file or truncates it; \<open>file.Write\<close> appends to the open file.\<close>

definition file_Create :: "string \<Rightarrow> world \<Rightarrow> world" where
  "file_Create fname w = w\<lparr>files := (files w)(fname \<mapsto> []), trace := trace w @ [Create fname]\<rparr>"

definition file_Write :: "string \<Rightarrow> string \<Rightarrow> world \<Rightarrow> world" where
  "file_Write fname bytes w =
     w\<lparr>files := (files w)(fname \<mapsto> gocode_get (files w) fname @ bytes),
       trace := trace w @ [Write fname bytes]\<rparr>"

definition outfile ::
  "'g env \<Rightarrow> (string \<rightharpoonup> string) \<Rightarrow> string \<Rightarrow> string \<Rightarrow> world \<Rightarrow> outfile_result \<times> world" where
  "outfile e gocode pkg key w =
     (let fname = filepath_Join e pkg (key @ ''.go'')
      in case os_Create e w fname of
           Some err \<Rightarrow> (Returned (Some err), w)
         | None \<Rightarrow>
             (let w1 = file_Create fname w;
                  data = artifact_data gocode key
              in case format_Source e data of
                   Inl err \<Rightarrow> (Exited err, file_Write fname data w1)
                 | Inr source \<Rightarrow>
                     (let w2 = file_Write fname source w1;
                          w3 = w2\<lparr>trace := trace w2 @ [RunGoimports fname]\<rparr>
                      in case goimports e fname source of
                           Inl err \<Rightarrow> (Returned (Some err), w3)
                         | Inr fixed \<Rightarrow>
                             (Returned None, w3\<lparr>files := (files w3)(fname \<mapsto> fixed)\<rparr>))))"

text \<open>
  The two calls into the generator, \<open>gen.NewGoWSDL\<close> then \<open>gowsdl.Start\<close>, each followed
  by \<open>log.Fatalln(err)\<close> on an error.
\<close>

definition generate ::
  "'g env \<Rightarrow> flags \<Rightarrow> string \<Rightarrow> world \<Rightarrow> (string + (string \<rightharpoonup> string)) \<times> world" where
  "generate e fl wsdlPath w =
     (let w1 = w\<lparr>trace := trace w @ [CallNewGoWSDL wsdlPath]\<rparr>
      in case NewGoWSDL e wsdlPath (flag_pkg fl) (flag_insecure fl) (flag_makePublic fl) prefix of
           Inl err \<Rightarrow> (Inl err, w1)
         | Inr gowsdl \<Rightarrow>
             (let w2 = w1\<lparr>trace := trace w1 @ [CallStart]\<rparr>
              in case Start e gowsdl of
                   Inl err \<Rightarrow> (Inl err, w2)
                 | Inr gocode \<Rightarrow> (Inr gocode, w2)))"

text \<open>
  \<open>main\<close>, from the parsed flags and \<open>os.Args\<close>. The error of \<open>os.Mkdir\<close> and the errors
  that \<open>outfile\<close> returns are dropped, as the code drops them.
\<close>

definition main :: "'g env \<Rightarrow> flags \<Rightarrow> string list \<Rightarrow> world \<Rightarrow> status \<times> world" where
  "main e fl args w =
     (if flag_vers fl then (Exit0, w)
      else if length args < 2 then (Exit0, w)
      else
        (let wsdlPath = last args
         in if flag_outFile fl = wsdlPath
            then (Fatal ''Output file cannot be the same WSDL file'', w)
            else
              (case generate e fl wsdlPath w of
                 (Inl err, w1) \<Rightarrow> (Fatal err, w1)
               | (Inr gocode, w1) \<Rightarrow>
                   (let pkg = filepath_Join e (flag_dir fl) (flag_pkg fl);
                        w2 = w1\<lparr>trace := trace w1 @ [Mkdir pkg]\<rparr>
                    in case outfile e gocode pkg ''types'' w2 of
                         (Exited err, w3) \<Rightarrow> (Fatal err, w3)
                       | (Returned r, w3) \<Rightarrow>
                           (case outfile e gocode pkg ''operations'' w3 of
                              (Exited err, w4) \<Rightarrow> (Fatal err, w4)
                            | (Returned r', w4) \<Rightarrow> (Done, w4))))))"

text \<open>The files a run opened for writing.\<close>

fun created :: "event list \<Rightarrow> string list" where
  "created [] = []"
| "created (Create f # evs) = f # created evs"
| "created (ev # evs) = created evs"

section \<open>Instances for the examples\<close>

text \<open>
  Modelled from the spec: \<open>removeNS\<close>, which is not in the sources. A reference is resolved
  with its namespace prefix stripped; the prefix ends at the first colon.
\<close>

definition sample_removeNS :: "string \<Rightarrow> string" where
  "sample_removeNS s =
     (if CHR '':'' \<in> set s then tl (dropWhile (\<lambda>c. c \<noteq> CHR '':'') s) else s)"

text \<open>
  Modelled from the spec: \<open>makePublic\<close> and \<open>makePrivate\<close>, which are not in the sources,
  as the exported and the unexported casing of an identifier: the first letter in upper
  case, or in lower case.
\<close>

definition sample_makePublic :: "string \<Rightarrow> string" where
  "sample_makePublic s =
     (case s of
        [] \<Rightarrow> []
      | c # cs \<Rightarrow>
          (case map_of (zip ''abcdefghijklmnopqrstuvwxyz'' ''ABCDEFGHIJKLMNOPQRSTUVWXYZ'') c of
             Some u \<Rightarrow> u # cs
           | None \<Rightarrow> c # cs))"

definition sample_makePrivate :: "string \<Rightarrow> string" where
  "sample_makePrivate s =
     (case s of
        [] \<Rightarrow> []
      | c # cs \<Rightarrow>
          (case map_of (zip ''ABCDEFGHIJKLMNOPQRSTUVWXYZ'' ''abcdefghijklmnopqrstuvwxyz'') c of
             Some l \<Rightarrow> l # cs
           | None \<Rightarrow> c # cs))"

text \<open>
  Modelled from the spec: \<open>replaceReservedWords\<close>, which is not in the sources. A name that
  is a keyword of the target language is remapped by a suffix.
\<close>

definition sample_replaceReservedWords :: "string \<Rightarrow> string" where
  "sample_replaceReservedWords s =
     (if s \<in> set [''break'', ''func'', ''interface'', ''range'', ''type'', ''var'']
      then s @ ''_'' else s)"

text \<open>
  Modelled from the spec: \<open>toGoType\<close>, which is not in the sources. The built-in scalars
  map by the table (\<open>string\<close> to the target string, \<open>int\<close> to a signed integer, \<open>boolean\<close>
  to the target boolean, \<open>dateTime\<close> to the date and time wrapper); any other name is the
  named type; a nillable one is a pointer.
\<close>

definition sample_toGoType :: "string \<Rightarrow> bool \<Rightarrow> string" where
  "sample_toGoType t nillable =
     (let goType =
        (case map_of [(''string'', ''string''), (''int'', ''int32''), (''boolean'', ''bool''),
                      (''dateTime'', ''soap.XSDDateTime'')] (sample_removeNS t) of
           Some b \<Rightarrow> b
         | None \<Rightarrow> sample_makePublic (sample_removeNS t))
      in if nillable then ''*'' @ goType else goType)"

definition sample_lookup :: "(string \<times> string) list \<Rightarrow> string \<Rightarrow> string" where
  "sample_lookup table k = (case map_of table k of Some v \<Rightarrow> v | None \<Rightarrow> [])"

text \<open>
  Modelled from the spec: the family of template functions for a WSDL whose messages
  resolve to the request and response types of \<open>messages\<close> and whose binding gives the
  operations of \<open>actions\<close> a SOAP action; a message or an operation that is not listed
  resolves to the empty string. No namespace has an alias, so \<open>wrapNS\<close> leaves a name as
  it is.
\<close>

definition sample_helpers :: "(string \<times> string) list \<Rightarrow> (string \<times> string) list \<Rightarrow> helpers" where
  "sample_helpers messages actions =
     \<lparr> makePublic = sample_makePublic,
       makePrivate = sample_makePrivate,
       makeFieldPublic = sample_makePublic,
       replaceReservedWords = sample_replaceReservedWords,
       replaceAttrReservedWords = sample_replaceReservedWords,
       normalize_T = id,
       removeNS = sample_removeNS,
       setNS = id,
       wrapNS = (\<lambda>ns name. name),
       toGoType = sample_toGoType,
       removePointerFromType = (\<lambda>t. case t of [] \<Rightarrow> [] | c # cs \<Rightarrow> if c = CHR ''*'' then cs else t),
       goString = id,
       comment_T = (\<lambda>doc. ''// '' @ doc),
       findType = (\<lambda>message. sample_lookup messages (sample_removeNS message)),
       findSOAPAction = (\<lambda>operation portType. sample_lookup actions operation),
       findNameByType = id \<rparr>"

text \<open>
  An outside for the examples: the generator answers \<open>loaded\<close> and then \<open>generated\<close>, the
  formatter is \<open>fmt\<close>, every file can be created, \<open>goimports\<close> leaves a source as it is, and
  \<open>filepath.Join\<close> of two clean relative paths puts the separator between them.
\<close>

definition sample_Join :: "string \<Rightarrow> string \<Rightarrow> string" where
  "sample_Join a b = (if a = [] then b else if b = [] then a else a @ ''/'' @ b)"

definition sample_env ::
  "string + unit \<Rightarrow> string + (string \<rightharpoonup> string) \<Rightarrow> (string \<Rightarrow> string + string) \<Rightarrow> unit env" where
  "sample_env loaded generated fmt =
     \<lparr> NewGoWSDL = (\<lambda>path pkg insecure public prefixes. loaded),
       Start = (\<lambda>g. generated),
       format_Source = fmt,
       filepath_Join = sample_Join,
       os_Create = (\<lambda>w fname. None),
       goimports = (\<lambda>fname source. Inr source) \<rparr>"

definition sample_gocode :: "string \<rightharpoonup> string" where
  "sample_gocode =
     map_of [(''header'', ''package svc; ''), (''imports'', ''package svc; ''),
             (''types'', ''type A struct {''), (''operations'', ''type S interface {}'')]"

definition sample_format :: "string \<Rightarrow> string + string" where
  "sample_format src = (if src = ''package svc; type A struct {'' then Inl ''expected }'' else Inr src)"

definition sample_flags :: flags where
  "sample_flags =
     \<lparr> flag_vers = False, flag_pkg = ''svc'', flag_outFile = ''myservice.go'',
       flag_dir = ''out'', flag_insecure = False, flag_makePublic = True \<rparr>"

definition empty_world :: world where
  "empty_world = \<lparr> files = Map.empty, trace = [] \<rparr>"

section \<open>Enumeration constants\<close>

lemma const_blocks_append: "const_blocks (xs @ ys) = const_blocks xs @ const_blocks ys"
  by (induction xs rule: const_blocks.induct) simp_all

lemma enum_consts_names:
  "map c_name (enum_consts h tn es) =
     map (\<lambda>e. tn @ makePublic h (replaceReservedWords h (en_Value e))) es"
  by (simp add: enum_consts_def enum_const_def)

lemma enum_consts_distinct:
  "distinct (map c_name (enum_consts h tn es)) \<longleftrightarrow>
   distinct (map (\<lambda>e. makePublic h (replaceReservedWords h (en_Value e))) es)"
proof -
  have "map c_name (enum_consts h tn es) =
        map ((@) tn) (map (\<lambda>e. makePublic h (replaceReservedWords h (en_Value e))) es)"
    by (simp add: enum_consts_names)
  then show ?thesis
    by (simp only: distinct_map) (auto simp: inj_on_def)
qed

lemma const_blocks_SimpleType_T:
  "const_blocks (SimpleType_T h ns st) =
     const_blocks (simple_type_consts h
       (makePublic h (wrapNS h ns (replaceReservedWords h (st_Name st)))) st)"
  by (simp add: SimpleType_T_def Let_def const_blocks_append doc_decl_def simple_type_decl_def)

text \<open>
  Claim C3, as amended. For a simple type with enumerated facet values the template writes
  one constant per facet value, in the order of the values. The name of each constant is the
  derived type name followed by the sanitized facet value, that is \<open>makePublic\<close> of
  \<open>replaceReservedWords\<close> of the value. The names of one block are pairwise distinct exactly
  when the sanitized facet values are. The block of template "SimpleType" and the block of a
  local simple type are this list of constants whenever the type has facet values: the
  template compares no names and has no way to fail.
\<close>

theorem enum_constant_names:
  "map c_name (enum_consts h tn es) =
     map (\<lambda>e. tn @ makePublic h (replaceReservedWords h (en_Value e))) es \<and>
   length (enum_consts h tn es) = length es \<and>
   (distinct (map c_name (enum_consts h tn es)) \<longleftrightarrow>
    distinct (map (\<lambda>e. makePublic h (replaceReservedWords h (en_Value e))) es)) \<and>
   const_blocks (simple_type_consts h tn st) =
     (if st_Restriction_Enumeration st = [] then []
      else [enum_consts h tn (st_Restriction_Enumeration st)]) \<and>
   const_blocks (SimpleType_T h ns st) =
     const_blocks (simple_type_consts h
       (makePublic h (wrapNS h ns (replaceReservedWords h (st_Name st)))) st)"
proof -
  have len: "length (enum_consts h tn es) = length es"
    by (simp add: enum_consts_def)
  have blk: "const_blocks (simple_type_consts h tn st) =
     (if st_Restriction_Enumeration st = [] then []
      else [enum_consts h tn (st_Restriction_Enumeration st)])"
    by (simp add: simple_type_consts_def)
  show ?thesis
    using enum_consts_names enum_consts_distinct len blk const_blocks_SimpleType_T by blast
qed

text \<open>
  Claim C3 as stated fails: a simple type \<open>color\<close> that lists the facet value \<open>red\<close> twice
  gets a constant block with the name \<open>ColorRed\<close> twice, whatever the template functions
  are, and the template ends normally. So it does for the two facet values \<open>red\<close> and
  \<open>Red\<close> when \<open>makePublic\<close> puts the first letter in upper case.
\<close>

theorem enum_constant_names_counterexample:
  "map c_name (concat (const_blocks (SimpleType_T (sample_helpers [] []) ''urn:example''
     (XSDSimpleType ''color'' [] [] [] [] ''xs:string''
        [\<lparr>en_Doc = [], en_Value = ''red''\<rparr>, \<lparr>en_Doc = [], en_Value = ''red''\<rparr>])))) =
   [''ColorRed'', ''ColorRed''] \<and>
   map c_name (concat (const_blocks (SimpleType_T (sample_helpers [] []) ''urn:example''
     (XSDSimpleType ''color'' [] [] [] [] ''xs:string''
        [\<lparr>en_Doc = [], en_Value = ''red''\<rparr>, \<lparr>en_Doc = [], en_Value = ''Red''\<rparr>])))) =
   [''ColorRed'', ''ColorRed'']"
  by (simp add: SimpleType_T_def Let_def doc_decl_def simple_type_decl_def
      simple_type_consts_def enum_consts_def enum_const_def sample_helpers_def
      sample_makePublic_def sample_replaceReservedWords_def)

text \<open>
  Claim C9. The value of every enumeration constant is \<open>goString\<close> of the facet value as
  the schema has it. The functions that make the identifier, \<open>replaceReservedWords\<close> and
  \<open>makePublic\<close>, have no part in it: replacing them by any other functions leaves the
  values as they are.
\<close>

theorem enum_constant_values:
  "map c_value (enum_consts h tn es) = map (\<lambda>e. goString h (en_Value e)) es \<and>
   map c_value (enum_consts (h\<lparr>makePublic := f, replaceReservedWords := g\<rparr>) tn es) =
     map c_value (enum_consts h tn es)"
  by (simp add: enum_consts_def enum_const_def)

section \<open>Elements\<close>

lemma fields_of_append: "fields_of (xs @ ys) = fields_of xs @ fields_of ys"
  by (induction xs rule: fields_of.induct) simp_all

lemma field_slices_append: "field_slices (xs @ ys) = field_slices xs @ field_slices ys"
  by (induction xs rule: field_slices.induct) simp_all


lemma fields_of_doc_member: "fields_of (doc_member h d) = []"
  by (simp add: doc_member_def)

lemma field_slices_doc_member: "field_slices (doc_member h d) = []"
  by (simp add: doc_member_def)








lemma fields_of_Attributes_T: "fields_of (Attributes_T h as) = map (attr_field h) as"
  by (induction as)
     (simp_all add: Attributes_T_def Attribute_T_def fields_of_append fields_of_doc_member
        attr_field_def)




text \<open>
  Claim C8, as amended. For an element that has a \<open>ref\<close>, or a \<open>type\<close>, or neither of them
  and no inline simple type (the inline anonymous complex type), the template writes the
  \<open>[]\<close> marker before the type of the field exactly when \<open>maxOccurs\<close> is \<open>unbounded\<close>.
  For an element whose inline simple type is a list, the template always writes the
  marker.
\<close>

theorem element_slice_marker:
  "(el_Ref el \<noteq> [] \<or> el_Type el \<noteq> [] \<or> el_SimpleType el = None \<longrightarrow>
      field_slices (Element_T h el) = [el_MaxOccurs el = ''unbounded'']) \<and>
   (el_Ref el = [] \<and> el_Type el = [] \<and> el_SimpleType el = Some st \<and>
    st_List_ItemType st \<noteq> [] \<longrightarrow>
      field_slices (Element_T h el) = [True])"
  by (cases el) (auto simp: field_slices_append field_slices_doc_member)

theorem element_slice_marker_witness:
  "field_slices (Element_T (sample_helpers [] [])
     (XSDElement ''person'' [] [] [] ''unbounded'' False None
        (Some (XSDComplexType []
           [XSDElement ''name'' [] ''xs:string'' [] ''1'' False None None] [] [] [] [] []
           (XSDExtension [] [] [] [] []) (XSDExtension [] [] [] [] []))))) = [True] \<and>
   field_slices (Element_T (sample_helpers [] [])
     (XSDElement ''owner'' [] [] ''tns:person'' ''1'' False None None)) = [False] \<and>
   field_slices (Element_T (sample_helpers [] [])
     (XSDElement ''tags'' [] ''xs:string'' [] ''unbounded'' False None None)) = [True] \<and>
   field_slices (Element_T (sample_helpers [] [])
     (XSDElement ''sizes'' [] [] [] ''1'' False
        (Some (XSDSimpleType [] [] ''xs:int'' [] [] [] [])) None)) = [True]"
proof -
  let ?h = "sample_helpers [] []"
  let ?inline = "XSDElement ''person'' [] [] [] ''unbounded'' False None
        (Some (XSDComplexType []
           [XSDElement ''name'' [] ''xs:string'' [] ''1'' False None None] [] [] [] [] []
           (XSDExtension [] [] [] [] []) (XSDExtension [] [] [] [] [])))"
  let ?ref = "XSDElement ''owner'' [] [] ''tns:person'' ''1'' False None None"
  let ?typed = "XSDElement ''tags'' [] ''xs:string'' [] ''unbounded'' False None None"
  let ?st = "XSDSimpleType [] [] ''xs:int'' [] [] [] []"
  let ?list = "XSDElement ''sizes'' [] [] [] ''1'' False (Some ?st) None"
  have k1: "el_Ref ?inline \<noteq> [] \<or> el_Type ?inline \<noteq> [] \<or> el_SimpleType ?inline = None"
    by simp
  have k2: "el_Ref ?ref \<noteq> [] \<or> el_Type ?ref \<noteq> [] \<or> el_SimpleType ?ref = None" by simp
  have k3: "el_Ref ?typed \<noteq> [] \<or> el_Type ?typed \<noteq> [] \<or> el_SimpleType ?typed = None"
    by simp
  have k4: "el_Ref ?list = [] \<and> el_Type ?list = [] \<and> el_SimpleType ?list = Some ?st \<and>
            st_List_ItemType ?st \<noteq> []"
    by simp
  have r1: "field_slices (Element_T ?h ?inline) = [el_MaxOccurs ?inline = ''unbounded'']"
    using element_slice_marker [of ?inline ?h] k1 by blast
  have r2: "field_slices (Element_T ?h ?ref) = [el_MaxOccurs ?ref = ''unbounded'']"
    using element_slice_marker [of ?ref ?h] k2 by blast
  have r3: "field_slices (Element_T ?h ?typed) = [el_MaxOccurs ?typed = ''unbounded'']"
    using element_slice_marker [of ?typed ?h] k3 by blast
  have r4: "field_slices (Element_T ?h ?list) = [True]"
    using element_slice_marker [of ?list ?h ?st] k4 by blast
  show ?thesis using r1 r2 r3 r4 by simp
qed

text \<open>
  Claim C8 as stated fails for an element with an inline simple type, which is an
  ElementDeclaration too: with a list item type and \<open>maxOccurs = 1\<close> the field has the
  \<open>[]\<close> marker, and with a restriction and \<open>maxOccurs = unbounded\<close> it has none.
\<close>

theorem element_slice_marker_counterexample:
  "field_slices (Element_T (sample_helpers [] [])
     (XSDElement ''sizes'' [] [] [] ''1'' False
        (Some (XSDSimpleType [] [] ''xs:int'' [] [] [] [])) None)) = [True] \<and>
   field_slices (Element_T (sample_helpers [] [])
     (XSDElement ''codes'' [] [] [] ''unbounded'' False
        (Some (XSDSimpleType [] [] [] [] [] ''xs:string'' [])) None)) = [False]"
  by (simp add: doc_member_def)

section \<open>Complex types with an extension\<close>


lemma inline_body_eq:
  "inline_body h ct =
     (if ext_Base (ct_ComplexContent_Extension ct) \<noteq> [] then
        ComplexContent_T h (ct_ComplexContent_Extension ct)
      else if ext_Base (ct_SimpleContent_Extension ct) \<noteq> [] then
        SimpleContent_T h (ct_SimpleContent_Extension ct)
      else
        Elements_T h (ct_Sequence ct) @ Elements_T h (ct_Choice ct) @
        Elements_T h (ct_SequenceChoice ct) @ Elements_T h (ct_All ct) @
        Attributes_T h (ct_Attributes ct))"
  by (cases ct) (simp add: Elements_T_def)




section \<open>Complex types with simple content\<close>

lemma attr_field_not_chardata: "\<not> is_chardata (attr_field h a)"
proof -
  have "length (at_Name a @ '',attr,omitempty'') \<noteq> length '',chardata''" by simp
  then have "at_Name a @ '',attr,omitempty'' \<noteq> '',chardata''" by metis
  then show ?thesis by (simp add: attr_field_def)
qed

lemma XMLName_field_not_chardata: "\<not> is_chardata (XMLName_field tns n)"
proof -
  have "CHR '' '' \<in> set (tns @ '' '' @ n)" by simp
  moreover have "CHR '' '' \<notin> set '',chardata''" by simp
  ultimately have "tns @ '' '' @ n \<noteq> '',chardata''" by metis
  then show ?thesis by (simp add: XMLName_field_def)
qed

lemma filter_chardata_Attributes_T: "filter is_chardata (Attributes_T h as) = []"
  by (induction as)
     (simp_all add: Attributes_T_def Attribute_T_def doc_member_def attr_field_not_chardata)

lemma SimpleContent_T_chardata:
  "filter is_chardata (SimpleContent_T h ext) = [chardata_field h (ext_Base ext)]"
  using filter_chardata_Attributes_T [of h "ext_Attributes ext"]
  by (simp add: SimpleContent_T_def chardata_field_def)

text \<open>
  Claim C7, as amended. Let a complex type have a simple-content extension and no
  complex-content extension. The body of every struct written for it is template
  "SimpleContent": its fields are the field \<open>Value\<close>, tagged \<open>,chardata\<close> and typed as
  \<open>toGoType\<close> resolves the base, then one field for each attribute of the extension, and
  \<open>Value\<close> is its only character-data field, also after the \<open>XMLName\<close> field of a global
  type. The range over the global complex types writes the struct unless the extension has
  no attributes and the base resolves to \<open>string\<close>; then it writes \<open>type N string\<close>.
\<close>

theorem simple_content_struct:
  assumes nocc: "ext_Base (ct_ComplexContent_Extension ct) = []"
    and base: "ext_Base (ct_SimpleContent_Extension ct) \<noteq> []"
  shows "struct_body h ct = SimpleContent_T h (ct_SimpleContent_Extension ct) \<and>
         inline_body h ct = SimpleContent_T h (ct_SimpleContent_Extension ct) \<and>
         fields_of (SimpleContent_T h (ct_SimpleContent_Extension ct)) =
           chardata_field h (ext_Base (ct_SimpleContent_Extension ct)) #
           map (attr_field h) (ext_Attributes (ct_SimpleContent_Extension ct)) \<and>
         filter is_chardata (SimpleContent_T h (ct_SimpleContent_Extension ct)) =
           [chardata_field h (ext_Base (ct_SimpleContent_Extension ct))] \<and>
         ComplexTypeGlobal_T h ns tns ct =
           DComment (''ComplexTypeGlobal '' @ tns) #
           (if ext_Attributes (ct_SimpleContent_Extension ct) = [] \<and>
               toGoType h (ext_Base (ct_SimpleContent_Extension ct)) False = ''string''
            then [TypeDef (makePublic h (wrapNS h ns (replaceReservedWords h (ct_Name ct)))) False ''string'']
            else [StructDef (makePublic h (wrapNS h ns (replaceReservedWords h (ct_Name ct))))
                    ((if ct_Name ct \<noteq> findNameByType h (ct_Name ct)
                      then [XMLName_field tns (findNameByType h (ct_Name ct))] else []) @
                     SimpleContent_T h (ct_SimpleContent_Extension ct))]) \<and>
         filter is_chardata
           ((if ct_Name ct \<noteq> findNameByType h (ct_Name ct)
             then [XMLName_field tns (findNameByType h (ct_Name ct))] else []) @
            SimpleContent_T h (ct_SimpleContent_Extension ct)) =
           [chardata_field h (ext_Base (ct_SimpleContent_Extension ct))]"
proof -
  have sb: "struct_body h ct = SimpleContent_T h (ct_SimpleContent_Extension ct)"
    using nocc base by (simp add: struct_body_def)
  have ib: "inline_body h ct = SimpleContent_T h (ct_SimpleContent_Extension ct)"
    using nocc base by (simp add: inline_body_eq)
  have fs: "fields_of (SimpleContent_T h (ct_SimpleContent_Extension ct)) =
           chardata_field h (ext_Base (ct_SimpleContent_Extension ct)) #
           map (attr_field h) (ext_Attributes (ct_SimpleContent_Extension ct))"
    by (simp add: SimpleContent_T_def chardata_field_def fields_of_Attributes_T)
  have g: "ComplexTypeGlobal_T h ns tns ct =
           DComment (''ComplexTypeGlobal '' @ tns) #
           (if ext_Attributes (ct_SimpleContent_Extension ct) = [] \<and>
               toGoType h (ext_Base (ct_SimpleContent_Extension ct)) False = ''string''
            then [TypeDef (makePublic h (wrapNS h ns (replaceReservedWords h (ct_Name ct)))) False ''string'']
            else [StructDef (makePublic h (wrapNS h ns (replaceReservedWords h (ct_Name ct))))
                    ((if ct_Name ct \<noteq> findNameByType h (ct_Name ct)
                      then [XMLName_field tns (findNameByType h (ct_Name ct))] else []) @
                     SimpleContent_T h (ct_SimpleContent_Extension ct))])"
    using sb by (simp add: ComplexTypeGlobal_T_def Let_def)
  have cd: "filter is_chardata
           ((if ct_Name ct \<noteq> findNameByType h (ct_Name ct)
             then [XMLName_field tns (findNameByType h (ct_Name ct))] else []) @
            SimpleContent_T h (ct_SimpleContent_Extension ct)) =
           [chardata_field h (ext_Base (ct_SimpleContent_Extension ct))]"
    by (simp add: SimpleContent_T_chardata XMLName_field_not_chardata)
  show ?thesis using sb ib fs g cd SimpleContent_T_chardata by blast
qed

theorem simple_content_struct_witness:
  "fields_of (struct_body (sample_helpers [] [])
     (XSDComplexType ''price'' [] [] [] [] [] []
        (XSDExtension [] [] [] [] [])
        (XSDExtension ''xs:string'' [] [] []
           [\<lparr> at_Name = ''currency'', at_Doc = [], at_Type = [] \<rparr>]))) =
     [Field ''Value'' False (TypeText ''string'') [(''xml'', '',chardata''), (''json'', ''-,'')],
      Field ''Currency'' False (TypeText ''string'')
        [(''xml'', ''currency,attr,omitempty''), (''json'', ''currency,omitempty'')]]"
proof -
  let ?h = "sample_helpers [] []"
  let ?ct = "XSDComplexType ''price'' [] [] [] [] [] []
        (XSDExtension [] [] [] [] [])
        (XSDExtension ''xs:string'' [] [] []
           [\<lparr> at_Name = ''currency'', at_Doc = [], at_Type = [] \<rparr>])"
  have nocc: "ext_Base (ct_ComplexContent_Extension ?ct) = []" by simp
  have base: "ext_Base (ct_SimpleContent_Extension ?ct) \<noteq> []" by simp
  have tg: "toGoType ?h ''xs:string'' False = ''string''"
    by (simp add: sample_helpers_def sample_toGoType_def sample_removeNS_def)
  have names: "makeFieldPublic ?h (normalize_T ?h ''currency'') = ''Currency''"
    by (simp add: sample_helpers_def sample_makePublic_def)
  show ?thesis
    using simple_content_struct [OF nocc base, of ?h] tg names
    by (simp add: attr_field_def chardata_field_def)
qed

text \<open>
  Claim C7 as stated fails for the type it names in particular: a global complex type
  \<open>token\<close> whose simple content extends \<open>xs:string\<close> with no attributes is written as
  \<open>type Token string\<close>; there is no struct and no field \<open>Value\<close>.
\<close>

theorem simple_content_struct_counterexample:
  "ComplexTypeGlobal_T (sample_helpers [] []) ''urn:example'' ''urn:example''
     (XSDComplexType ''token'' [] [] [] [] [] []
        (XSDExtension [] [] [] [] []) (XSDExtension ''xs:string'' [] [] [] [])) =
   [DComment ''ComplexTypeGlobal urn:example'', TypeDef ''Token'' False ''string'']"
  by (simp add: ComplexTypeGlobal_T_def Let_def sample_helpers_def sample_removeNS_def
      sample_makePublic_def sample_replaceReservedWords_def sample_toGoType_def)


section \<open>Port types and operations\<close>

lemma interfaces_of_append: "interfaces_of (xs @ ys) = interfaces_of xs @ interfaces_of ys"
  by (induction xs rule: interfaces_of.induct) simp_all

lemma client_structs_of_append:
  "client_structs_of (xs @ ys) = client_structs_of xs @ client_structs_of ys"
  by (induction xs rule: client_structs_of.induct) simp_all

lemma methods_of_append: "methods_of (xs @ ys) = methods_of xs @ methods_of ys"
  by (induction xs rule: methods_of.induct) simp_all

lemma interfaces_of_Operations:
  "interfaces_of (concat (map (Operation_T h p) ops)) = []"
  by (induction ops) (simp_all add: interfaces_of_append Operation_T_def)

lemma client_structs_of_Operations:
  "client_structs_of (concat (map (Operation_T h p) ops)) = []"
  by (induction ops) (simp_all add: client_structs_of_append Operation_T_def client_field_def)

lemma methods_of_Operations:
  "methods_of (concat (map (Operation_T h p) ops)) = map (op_impl_method h p) ops"
  by (induction ops) (simp_all add: methods_of_append Operation_T_def)

lemma interfaces_of_PortType_T:
  "interfaces_of (PortType_T h pt) =
     [(makePublic h (pt_Name pt), map (op_iface_method h) (pt_Operations pt))]"
  by (simp add: PortType_T_def Let_def interfaces_of_Operations)

lemma client_structs_of_PortType_T:
  "client_structs_of (PortType_T h pt) = [makePrivate h (pt_Name pt)]"
  by (simp add: PortType_T_def Let_def client_structs_of_Operations)

lemma methods_of_PortType_T:
  "methods_of (PortType_T h pt) =
     map (op_impl_method h (makePrivate h (pt_Name pt))) (pt_Operations pt)"
  by (simp add: PortType_T_def Let_def methods_of_Operations)

lemma interfaces_of_opsTmpl:
  "interfaces_of (opsTmpl h pts) =
     map (\<lambda>pt. (makePublic h (pt_Name pt), map (op_iface_method h) (pt_Operations pt))) pts"
  by (induction pts) (simp_all add: opsTmpl_def interfaces_of_append interfaces_of_PortType_T)

lemma client_structs_of_opsTmpl:
  "client_structs_of (opsTmpl h pts) = map (\<lambda>pt. makePrivate h (pt_Name pt)) pts"
  by (induction pts)
     (simp_all add: opsTmpl_def client_structs_of_append client_structs_of_PortType_T)

lemma methods_of_opsTmpl:
  "methods_of (opsTmpl h pts) =
     concat (map (\<lambda>pt. map (op_impl_method h (makePrivate h (pt_Name pt))) (pt_Operations pt)) pts)"
  by (induction pts) (simp_all add: opsTmpl_def methods_of_append methods_of_PortType_T)

lemma iface_sigs_of_opsTmpl:
  "map (\<lambda>i. map im_sig (snd i)) (interfaces_of (opsTmpl h pts)) =
     map (\<lambda>pt. map (op_sig h) (pt_Operations pt)) pts"
  by (simp add: interfaces_of_opsTmpl comp_def op_iface_method_def)

lemma method_sigs_of_opsTmpl:
  "map om_sig (methods_of (opsTmpl h pts)) =
     concat (map (\<lambda>pt. map (op_sig h) (pt_Operations pt)) pts)"
  by (simp add: methods_of_opsTmpl map_concat comp_def op_impl_method_def)

lemma method_receivers_of_opsTmpl:
  "map om_receiver (methods_of (opsTmpl h pts)) =
     concat (map (\<lambda>pt. replicate (length (pt_Operations pt)) (''*'' @ makePrivate h (pt_Name pt)))
       pts)"
  by (simp add: methods_of_opsTmpl map_concat comp_def op_impl_method_def map_replicate_const)

lemma op_sig_params:
  "m_params (op_sig h op) =
     (''ctx'', ''context.Context'') #
     (if makePublic h (replaceReservedWords h (findType h (op_Input_Message op))) \<noteq> []
      then [(''request'',
             ''*'' @ makePublic h (replaceReservedWords h (findType h (op_Input_Message op))))]
      else [])"
  by (simp add: op_sig_def requestType_def)

lemma op_sig_results:
  "m_results (op_sig h op) =
     (if makePublic h (replaceReservedWords h (findType h (op_Output_Message op))) \<noteq> []
      then [''*'' @ makePublic h (replaceReservedWords h (findType h (op_Output_Message op)))]
      else []) @ [''error'']"
  by (simp add: op_sig_def responseType_def)

text \<open>
  Claim C1. For a list of port types the template writes one interface type per port type,
  named by \<open>makePublic\<close>, and one struct that holds the client per port type, named by
  \<open>makePrivate\<close>, in the order of the port types. The interface of a port type has one
  method per operation, and the struct of the port type is the receiver of one method per
  operation, in the order of the operations and with the signature of the operation. The
  name of the signature is \<open>replaceReservedWords\<close> of \<open>makePublic\<close> of the operation's
  name. Its first parameter is \<open>ctx context.Context\<close>. Let the request type be
  \<open>makePublic\<close> of \<open>replaceReservedWords\<close> of what \<open>findType\<close> resolves the input message
  to, and the response type the same of the output message. A parameter \<open>request\<close> is
  present exactly when the request type is not empty, and it is then the only other
  parameter, a pointer to the request type; the results are a pointer to the response type,
  present exactly when the response type is not empty, followed by \<open>error\<close>. In
  particular, when the input message resolves to the empty string, and
  \<open>replaceReservedWords\<close> and \<open>makePublic\<close> leave the empty string empty, \<open>ctx\<close> is the
  only parameter; and likewise \<open>error\<close> is the only result when the output message
  resolves to the empty string.
\<close>

theorem port_type_interface_and_methods:
  "interfaces_of (opsTmpl h pts) =
     map (\<lambda>pt. (makePublic h (pt_Name pt), map (op_iface_method h) (pt_Operations pt))) pts \<and>
   client_structs_of (opsTmpl h pts) = map (\<lambda>pt. makePrivate h (pt_Name pt)) pts \<and>
   map (\<lambda>i. map im_sig (snd i)) (interfaces_of (opsTmpl h pts)) =
     map (\<lambda>pt. map (op_sig h) (pt_Operations pt)) pts \<and>
   map om_sig (methods_of (opsTmpl h pts)) =
     concat (map (\<lambda>pt. map (op_sig h) (pt_Operations pt)) pts) \<and>
   map om_receiver (methods_of (opsTmpl h pts)) =
     concat (map (\<lambda>pt. replicate (length (pt_Operations pt)) (''*'' @ makePrivate h (pt_Name pt)))
       pts) \<and>
   interfaces_of (PortType_T h pt) =
     [(makePublic h (pt_Name pt), map (op_iface_method h) (pt_Operations pt))] \<and>
   client_structs_of (PortType_T h pt) = [makePrivate h (pt_Name pt)] \<and>
   map im_sig (map (op_iface_method h) (pt_Operations pt)) = map (op_sig h) (pt_Operations pt) \<and>
   map om_sig (methods_of (PortType_T h pt)) = map (op_sig h) (pt_Operations pt) \<and>
   map om_receiver (methods_of (PortType_T h pt)) =
     replicate (length (pt_Operations pt)) (''*'' @ makePrivate h (pt_Name pt)) \<and>
   m_name (op_sig h op) = replaceReservedWords h (makePublic h (op_Name op)) \<and>
   hd (m_params (op_sig h op)) = (''ctx'', ''context.Context'') \<and>
   ((''request'' \<in> set (map fst (m_params (op_sig h op)))) =
      (makePublic h (replaceReservedWords h (findType h (op_Input_Message op))) \<noteq> [])) \<and>
   tl (m_params (op_sig h op)) =
     (if makePublic h (replaceReservedWords h (findType h (op_Input_Message op))) \<noteq> []
      then [(''request'',
             ''*'' @ makePublic h (replaceReservedWords h (findType h (op_Input_Message op))))]
      else []) \<and>
   m_results (op_sig h op) =
     (if makePublic h (replaceReservedWords h (findType h (op_Output_Message op))) \<noteq> []
      then [''*'' @ makePublic h (replaceReservedWords h (findType h (op_Output_Message op)))]
      else []) @ [''error''] \<and>
   (findType h (op_Input_Message op) = [] \<and> replaceReservedWords h [] = [] \<and>
    makePublic h [] = [] \<longrightarrow>
      m_params (op_sig h op) = [(''ctx'', ''context.Context'')]) \<and>
   (findType h (op_Output_Message op) = [] \<and> replaceReservedWords h [] = [] \<and>
    makePublic h [] = [] \<longrightarrow>
      m_results (op_sig h op) = [''error''])"
proof -
  have s1: "map im_sig (map (op_iface_method h) (pt_Operations pt)) = map (op_sig h) (pt_Operations pt)"
    by (simp add: op_iface_method_def)
  have s2: "map om_sig (methods_of (PortType_T h pt)) = map (op_sig h) (pt_Operations pt)"
    by (simp add: methods_of_PortType_T op_impl_method_def)
  have s3: "map om_receiver (methods_of (PortType_T h pt)) =
     replicate (length (pt_Operations pt)) (''*'' @ makePrivate h (pt_Name pt))"
    by (simp add: methods_of_PortType_T op_impl_method_def comp_def map_replicate_const)
  have p0: "m_name (op_sig h op) = replaceReservedWords h (makePublic h (op_Name op))"
    by (simp add: op_sig_def)
  have p1: "hd (m_params (op_sig h op)) = (''ctx'', ''context.Context'')"
    by (simp add: op_sig_params)
  have p2: "(''request'' \<in> set (map fst (m_params (op_sig h op)))) =
      (makePublic h (replaceReservedWords h (findType h (op_Input_Message op))) \<noteq> [])"
    by (cases "makePublic h (replaceReservedWords h (findType h (op_Input_Message op))) = []")
       (simp_all add: op_sig_params)
  have p3: "tl (m_params (op_sig h op)) =
     (if makePublic h (replaceReservedWords h (findType h (op_Input_Message op))) \<noteq> []
      then [(''request'',
             ''*'' @ makePublic h (replaceReservedWords h (findType h (op_Input_Message op))))]
      else [])"
    by (simp add: op_sig_params)
  have p5: "findType h (op_Input_Message op) = [] \<and> replaceReservedWords h [] = [] \<and>
    makePublic h [] = [] \<longrightarrow>
      m_params (op_sig h op) = [(''ctx'', ''context.Context'')]"
    by (simp add: op_sig_params)
  have p6: "findType h (op_Output_Message op) = [] \<and> replaceReservedWords h [] = [] \<and>
    makePublic h [] = [] \<longrightarrow>
      m_results (op_sig h op) = [''error'']"
    by (simp add: op_sig_results)
  show ?thesis
    using interfaces_of_opsTmpl [of h pts] client_structs_of_opsTmpl [of h pts]
      iface_sigs_of_opsTmpl [of h pts] method_sigs_of_opsTmpl [of h pts]
      method_receivers_of_opsTmpl [of h pts]
      interfaces_of_PortType_T [of h pt] client_structs_of_PortType_T [of h pt]
      s1 s2 s3 p0 p1 p2 p3 op_sig_results [of h op] p5 p6
    by blast
qed

theorem port_type_interface_and_methods_witness:
  "map om_sig (methods_of (opsTmpl
      (sample_helpers [(''GetPersonRequest'', ''PersonRequest''),
                       (''GetPersonResponse'', ''PersonResponse'')] [])
      [\<lparr> pt_Name = ''PersonPort'',
         pt_Operations =
           [\<lparr> op_Name = ''getPerson'', op_Doc = [], op_Faults = [],
              op_Input_Message = ''tns:GetPersonRequest'',
              op_Output_Message = ''tns:GetPersonResponse'' \<rparr>,
            \<lparr> op_Name = ''ping'', op_Doc = [], op_Faults = [],
              op_Input_Message = [], op_Output_Message = [] \<rparr>] \<rparr>])) =
   [\<lparr> m_name = ''GetPerson'',
      m_params = [(''ctx'', ''context.Context''), (''request'', ''*PersonRequest'')],
      m_results = [''*PersonResponse'', ''error''] \<rparr>,
    \<lparr> m_name = ''Ping'',
      m_params = [(''ctx'', ''context.Context'')],
      m_results = [''error''] \<rparr>]"
proof -
  let ?h = "sample_helpers [(''GetPersonRequest'', ''PersonRequest''),
                            (''GetPersonResponse'', ''PersonResponse'')] []"
  let ?get = "\<lparr> op_Name = ''getPerson'', op_Doc = [], op_Faults = [],
              op_Input_Message = ''tns:GetPersonRequest'',
              op_Output_Message = ''tns:GetPersonResponse'' \<rparr>"
  let ?ping = "\<lparr> op_Name = ''ping'', op_Doc = [], op_Faults = [],
              op_Input_Message = [], op_Output_Message = [] \<rparr>"
  let ?pt = "\<lparr> pt_Name = ''PersonPort'', pt_Operations = [?get, ?ping] \<rparr>"
  have empty: "findType ?h [] = []" "replaceReservedWords ?h [] = []" "makePublic ?h [] = []"
    by (simp_all add: sample_helpers_def sample_lookup_def sample_removeNS_def
        sample_replaceReservedWords_def sample_makePublic_def)
  have req: "makePublic ?h (replaceReservedWords ?h (findType ?h ''tns:GetPersonRequest'')) =
               ''PersonRequest''"
    by (simp add: sample_helpers_def sample_lookup_def sample_removeNS_def
        sample_replaceReservedWords_def sample_makePublic_def)
  have resp: "makePublic ?h (replaceReservedWords ?h (findType ?h ''tns:GetPersonResponse'')) =
               ''PersonResponse''"
    by (simp add: sample_helpers_def sample_lookup_def sample_removeNS_def
        sample_replaceReservedWords_def sample_makePublic_def)
  have names: "replaceReservedWords ?h (makePublic ?h ''getPerson'') = ''GetPerson''"
      "replaceReservedWords ?h (makePublic ?h ''ping'') = ''Ping''"
    by (simp_all add: sample_helpers_def sample_replaceReservedWords_def sample_makePublic_def)
  note get = port_type_interface_and_methods [of ?h "[?pt]" ?pt ?get]
  note ping = port_type_interface_and_methods [of ?h "[?pt]" ?pt ?ping]
  have g1: "m_name (op_sig ?h ?get) = ''GetPerson''"
    using get names by simp
  have g2: "m_params (op_sig ?h ?get) =
              [(''ctx'', ''context.Context''), (''request'', ''*PersonRequest'')]"
  proof -
    have "hd (m_params (op_sig ?h ?get)) = (''ctx'', ''context.Context'')"
      and "tl (m_params (op_sig ?h ?get)) = [(''request'', ''*PersonRequest'')]"
      and "''request'' \<in> set (map fst (m_params (op_sig ?h ?get)))"
      using get req by simp_all
    then show ?thesis
      by (cases "m_params (op_sig ?h ?get)") auto
  qed
  have g3: "m_results (op_sig ?h ?get) = [''*PersonResponse'', ''error'']"
    using get resp by simp
  have p1: "m_name (op_sig ?h ?ping) = ''Ping''"
    using ping names by simp
  have p2: "m_params (op_sig ?h ?ping) = [(''ctx'', ''context.Context'')]"
    using ping empty by simp
  have p3: "m_results (op_sig ?h ?ping) = [''error'']"
    using ping empty by simp
  have sg: "op_sig ?h ?get =
      \<lparr> m_name = ''GetPerson'',
        m_params = [(''ctx'', ''context.Context''), (''request'', ''*PersonRequest'')],
        m_results = [''*PersonResponse'', ''error''] \<rparr>"
    using g1 g2 g3 by (intro method_sig.equality) simp_all
  have sp: "op_sig ?h ?ping =
      \<lparr> m_name = ''Ping'', m_params = [(''ctx'', ''context.Context'')],
        m_results = [''error''] \<rparr>"
    using p1 p2 p3 by (intro method_sig.equality) simp_all
  have "map om_sig (methods_of (opsTmpl ?h [?pt])) =
          concat (map (\<lambda>pt. map (op_sig ?h) (pt_Operations pt)) [?pt])"
    using get by blast
  then show ?thesis using sg sp by simp
qed

text \<open>
  Claim C2, as amended. The text that the template writes between the double quotes of the
  SOAP action argument of \<open>service.client.Call\<close> is the SOAP action that \<open>findSOAPAction\<close>
  finds for the operation when that is not empty, and two apostrophes when it is empty.
  Every method of a port type carries this text for its operation.
\<close>

theorem soap_action_text:
  "(findSOAPAction h (op_Name op) (makePrivate h (pt_Name pt)) \<noteq> [] \<longrightarrow>
      action_text h (makePrivate h (pt_Name pt)) op =
        findSOAPAction h (op_Name op) (makePrivate h (pt_Name pt))) \<and>
   (findSOAPAction h (op_Name op) (makePrivate h (pt_Name pt)) = [] \<longrightarrow>
      action_text h (makePrivate h (pt_Name pt)) op = [CHR 0x27, CHR 0x27]) \<and>
   map om_action (methods_of (PortType_T h pt)) =
     map (action_text h (makePrivate h (pt_Name pt))) (pt_Operations pt)"
  by (simp add: action_text_def Let_def methods_of_PortType_T op_impl_method_def)

theorem soap_action_text_witness:
  "map om_action (methods_of (PortType_T (sample_helpers [] [(''GetPerson'', ''urn:example/GetPerson'')])
     \<lparr> pt_Name = ''PersonPort'',
       pt_Operations =
         [\<lparr> op_Name = ''GetPerson'', op_Doc = [], op_Faults = [],
            op_Input_Message = ''tns:GetPersonRequest'',
            op_Output_Message = ''tns:GetPersonResponse'' \<rparr>,
          \<lparr> op_Name = ''Ping'', op_Doc = [], op_Faults = [],
            op_Input_Message = [], op_Output_Message = [] \<rparr>] \<rparr>)) =
   [''urn:example/GetPerson'', [CHR 0x27, CHR 0x27]]"
proof -
  let ?h = "sample_helpers [] [(''GetPerson'', ''urn:example/GetPerson'')]"
  let ?get = "\<lparr> op_Name = ''GetPerson'', op_Doc = [], op_Faults = [],
            op_Input_Message = ''tns:GetPersonRequest'',
            op_Output_Message = ''tns:GetPersonResponse'' \<rparr>"
  let ?ping = "\<lparr> op_Name = ''Ping'', op_Doc = [], op_Faults = [],
            op_Input_Message = [], op_Output_Message = [] \<rparr>"
  let ?pt = "\<lparr> pt_Name = ''PersonPort'', pt_Operations = [?get, ?ping] \<rparr>"
  have present: "findSOAPAction ?h (op_Name ?get) (makePrivate ?h (pt_Name ?pt)) =
                   ''urn:example/GetPerson''"
    by (simp add: sample_helpers_def sample_lookup_def)
  have absent: "findSOAPAction ?h (op_Name ?ping) (makePrivate ?h (pt_Name ?pt)) = []"
    by (simp add: sample_helpers_def sample_lookup_def)
  have a1: "action_text ?h (makePrivate ?h (pt_Name ?pt)) ?get = ''urn:example/GetPerson''"
    using soap_action_text [of ?h ?get ?pt] present by simp
  have a2: "action_text ?h (makePrivate ?h (pt_Name ?pt)) ?ping = [CHR 0x27, CHR 0x27]"
    using soap_action_text [of ?h ?ping ?pt] absent by simp
  have "map om_action (methods_of (PortType_T ?h ?pt)) =
          map (action_text ?h (makePrivate ?h (pt_Name ?pt))) (pt_Operations ?pt)"
    using soap_action_text [of ?h ?get ?pt] by blast
  then show ?thesis using a1 a2 by simp
qed

text \<open>
  Claim C2 as stated fails when the binding gives the operation no SOAP action: the
  argument of the call is then the Go string of the two characters \<open>''\<close>, not the empty
  string.
\<close>

theorem soap_action_text_counterexample:
  "map om_action (methods_of (PortType_T (sample_helpers [] [])
     \<lparr> pt_Name = ''PersonPort'',
       pt_Operations =
         [\<lparr> op_Name = ''GetPerson'', op_Doc = [], op_Faults = [],
            op_Input_Message = ''tns:GetPersonRequest'',
            op_Output_Message = ''tns:GetPersonResponse'' \<rparr>] \<rparr>)) = [[CHR 0x27, CHR 0x27]]"
  by (simp add: PortType_T_def Let_def Operation_T_def op_impl_method_def action_text_def
      sample_helpers_def sample_lookup_def)


section \<open>Runs of the command\<close>

lemma created_append: "created (xs @ ys) = created xs @ created ys"
  by (induction xs rule: created.induct) simp_all

lemma generate_files: "files (snd (generate e fl p w)) = files w"
  by (simp add: generate_def Let_def split: sum.splits)

lemma generate_created: "created (trace (snd (generate e fl p w))) = created (trace w)"
  by (simp add: generate_def Let_def created_append split: sum.splits)

lemma main_before_emission:
  assumes "flag_vers fl \<or> length args < 2 \<or> flag_outFile fl = last args \<or>
           fst (generate e fl (last args) w) = Inl err"
  shows "files (snd (main e fl args w)) = files w \<and>
         created (trace (snd (main e fl args w))) = created (trace w)"
proof (cases "flag_vers fl \<or> length args < 2 \<or> flag_outFile fl = last args")
  case True
  then show ?thesis by (auto simp: main_def Let_def)
next
  case False
  with assms have g: "fst (generate e fl (last args) w) = Inl err" by blast
  then obtain w1 where g1: "generate e fl (last args) w = (Inl err, w1)"
    by (cases "generate e fl (last args) w") simp
  have "main e fl args w = (Fatal err, w1)"
    using False g1 by (simp add: main_def Let_def)
  moreover have "files w1 = files w" "created (trace w1) = created (trace w)"
    using generate_files [of e fl "last args" w] generate_created [of e fl "last args" w] g1
    by simp_all
  ultimately show ?thesis by simp
qed

lemma outfile_format_error:
  assumes "os_Create e w (filepath_Join e pkg (key @ ''.go'')) = None"
    and "format_Source e (artifact_data gocode key) = Inl err"
  shows "fst (outfile e gocode pkg key w) = Exited err \<and>
         files (snd (outfile e gocode pkg key w)) =
           (files w)(filepath_Join e pkg (key @ ''.go'') \<mapsto> artifact_data gocode key)"
  using assms
  by (simp add: outfile_def Let_def file_Create_def file_Write_def gocode_get_def)

lemma main_types_format_error:
  assumes run: "\<not> flag_vers fl" "2 \<le> length args" "flag_outFile fl \<noteq> last args"
    and gen: "fst (generate e fl (last args) w) = Inr gocode"
    and cr: "os_Create e
               ((snd (generate e fl (last args) w))
                  \<lparr>trace := trace (snd (generate e fl (last args) w)) @
                            [Mkdir (filepath_Join e (flag_dir fl) (flag_pkg fl))]\<rparr>)
               (filepath_Join e (filepath_Join e (flag_dir fl) (flag_pkg fl)) ''types.go'') = None"
    and fm: "format_Source e (artifact_data gocode ''types'') = Inl err"
  shows "fst (main e fl args w) = Fatal err \<and>
         files (snd (main e fl args w)) =
           (files w)(filepath_Join e (filepath_Join e (flag_dir fl) (flag_pkg fl)) ''types.go''
                      \<mapsto> artifact_data gocode ''types'')"
proof -
  obtain w1 where g1: "generate e fl (last args) w = (Inr gocode, w1)"
    using gen by (cases "generate e fl (last args) w") simp
  have fw: "files w1 = files w" using generate_files [of e fl "last args" w] g1 by simp
  define pkg where "pkg = filepath_Join e (flag_dir fl) (flag_pkg fl)"
  define w2 where "w2 = w1\<lparr>trace := trace w1 @ [Mkdir pkg]\<rparr>"
  have cr2: "os_Create e w2 (filepath_Join e pkg (''types'' @ ''.go'')) = None"
    using cr g1 by (simp add: w2_def pkg_def)
  have o: "fst (outfile e gocode pkg ''types'' w2) = Exited err \<and>
           files (snd (outfile e gocode pkg ''types'' w2)) =
             (files w2)(filepath_Join e pkg (''types'' @ ''.go'') \<mapsto> artifact_data gocode ''types'')"
    using outfile_format_error [OF cr2 fm] .
  then obtain w3 where o3: "outfile e gocode pkg ''types'' w2 = (Exited err, w3)"
    by (cases "outfile e gocode pkg ''types'' w2") simp
  have m: "main e fl args w = (Fatal err, w3)"
    using run g1 o3 by (simp add: main_def Let_def pkg_def w2_def)
  have "files w3 = (files w)(filepath_Join e pkg ''types.go'' \<mapsto> artifact_data gocode ''types'')"
    using o o3 fw by (simp add: w2_def)
  then show ?thesis using m by (simp add: pkg_def)
qed

text \<open>
  Claim C4, as amended. A run that ends before emission, by the version or usage exit, by
  the check of the output file name, or by an error of \<open>NewGoWSDL\<close> or of \<open>Start\<close>, leaves
  every file as it was and creates none. In emission the file of an artifact is created
  before its content is formatted; when the formatter fails, \<open>outfile\<close> writes the whole
  unformatted content to the file and ends the process with the formatter's error. For the
  first artifact, \<open>types\<close>, the run then ends with that file holding the unformatted
  content and every other file as it was.
\<close>

theorem output_on_failure:
  "((flag_vers fl \<or> length args < 2 \<or> flag_outFile fl = last args \<or>
     fst (generate e fl (last args) w) = Inl err) \<longrightarrow>
      files (snd (main e fl args w)) = files w \<and>
      created (trace (snd (main e fl args w))) = created (trace w)) \<and>
   (os_Create e w (filepath_Join e pkg (key @ ''.go'')) = None \<and>
    format_Source e (artifact_data gocode key) = Inl err \<longrightarrow>
      fst (outfile e gocode pkg key w) = Exited err \<and>
      files (snd (outfile e gocode pkg key w)) =
        (files w)(filepath_Join e pkg (key @ ''.go'') \<mapsto> artifact_data gocode key)) \<and>
   (\<not> flag_vers fl \<and> 2 \<le> length args \<and> flag_outFile fl \<noteq> last args \<and>
    fst (generate e fl (last args) w) = Inr gocode \<and>
    os_Create e
      ((snd (generate e fl (last args) w))
         \<lparr>trace := trace (snd (generate e fl (last args) w)) @
                   [Mkdir (filepath_Join e (flag_dir fl) (flag_pkg fl))]\<rparr>)
      (filepath_Join e (filepath_Join e (flag_dir fl) (flag_pkg fl)) ''types.go'') = None \<and>
    format_Source e (artifact_data gocode ''types'') = Inl err \<longrightarrow>
      fst (main e fl args w) = Fatal err \<and>
      files (snd (main e fl args w)) =
        (files w)(filepath_Join e (filepath_Join e (flag_dir fl) (flag_pkg fl)) ''types.go''
                   \<mapsto> artifact_data gocode ''types''))"
  using main_before_emission [of fl args e w err]
    outfile_format_error [of e w pkg key gocode err]
    main_types_format_error [of fl args e w gocode err]
  by blast

theorem output_on_failure_witness:
  "files (snd (main (sample_env (Inl ''no such file'') (Inr sample_gocode) sample_format)
          sample_flags [''gowsdl'', ''-d'', ''out'', ''-p'', ''svc'', ''svc.wsdl''] empty_world)) =
     Map.empty \<and>
   fst (outfile (sample_env (Inr ()) (Inr sample_gocode) sample_format) sample_gocode
          ''out/svc'' ''types'' empty_world) = Exited ''expected }'' \<and>
   files (snd (outfile (sample_env (Inr ()) (Inr sample_gocode) sample_format) sample_gocode
          ''out/svc'' ''types'' empty_world)) =
     [''out/svc/types.go'' \<mapsto> ''package svc; type A struct {''] \<and>
   files (snd (main (sample_env (Inr ()) (Inr sample_gocode) sample_format)
          sample_flags [''gowsdl'', ''-d'', ''out'', ''-p'', ''svc'', ''svc.wsdl''] empty_world)) =
     [''out/svc/types.go'' \<mapsto> ''package svc; type A struct {'']"
proof -
  let ?eL = "sample_env (Inl ''no such file'') (Inr sample_gocode) sample_format"
  let ?eF = "sample_env (Inr ()) (Inr sample_gocode) sample_format"
  let ?args = "[''gowsdl'', ''-d'', ''out'', ''-p'', ''svc'', ''svc.wsdl'']"
  have a: "fst (generate ?eL sample_flags (last ?args) empty_world) = Inl ''no such file''"
    by (simp add: generate_def Let_def sample_env_def)
  have b: "os_Create ?eF empty_world (filepath_Join ?eF ''out/svc'' (''types'' @ ''.go'')) = None"
    by (simp add: sample_env_def)
  have c: "format_Source ?eF (artifact_data sample_gocode ''types'') = Inl ''expected }''"
    by (simp add: sample_env_def sample_format_def artifact_data_def gocode_get_def
        sample_gocode_def)
  have d: "artifact_data sample_gocode ''types'' = ''package svc; type A struct {''"
    by (simp add: artifact_data_def gocode_get_def sample_gocode_def)
  have j: "filepath_Join ?eF ''out/svc'' (''types'' @ ''.go'') = ''out/svc/types.go''"
      "filepath_Join ?eF (filepath_Join ?eF (flag_dir sample_flags) (flag_pkg sample_flags))
         ''types.go'' = ''out/svc/types.go''"
    by (simp_all add: sample_env_def sample_Join_def sample_flags_def)
  have f: "\<not> flag_vers sample_flags" "2 \<le> length ?args"
      "flag_outFile sample_flags \<noteq> last ?args"
    by (simp_all add: sample_flags_def)
  have g: "fst (generate ?eF sample_flags (last ?args) empty_world) = Inr sample_gocode"
    by (simp add: generate_def Let_def sample_env_def)
  have k: "os_Create ?eF
      ((snd (generate ?eF sample_flags (last ?args) empty_world))
         \<lparr>trace := trace (snd (generate ?eF sample_flags (last ?args) empty_world)) @
                   [Mkdir (filepath_Join ?eF (flag_dir sample_flags) (flag_pkg sample_flags))]\<rparr>)
      (filepath_Join ?eF (filepath_Join ?eF (flag_dir sample_flags) (flag_pkg sample_flags))
         ''types.go'') = None"
    by (simp add: sample_env_def)
  have r1: "files (snd (main ?eL sample_flags ?args empty_world)) = files empty_world"
    using output_on_failure [where fl = sample_flags and args = ?args and e = ?eL
        and w = empty_world and err = "''no such file''"] a
    by blast
  have r2: "fst (outfile ?eF sample_gocode ''out/svc'' ''types'' empty_world) =
              Exited ''expected }'' \<and>
            files (snd (outfile ?eF sample_gocode ''out/svc'' ''types'' empty_world)) =
              (files empty_world)(filepath_Join ?eF ''out/svc'' (''types'' @ ''.go'') \<mapsto>
                 artifact_data sample_gocode ''types'')"
    using output_on_failure [where e = ?eF and w = empty_world and err = "''expected }''"
        and pkg = "''out/svc''" and key = "''types''" and gocode = sample_gocode] b c
    by blast
  have r3: "files (snd (main ?eF sample_flags ?args empty_world)) =
              (files empty_world)
                (filepath_Join ?eF (filepath_Join ?eF (flag_dir sample_flags) (flag_pkg sample_flags))
                   ''types.go'' \<mapsto> artifact_data sample_gocode ''types'')"
    using output_on_failure [where e = ?eF and w = empty_world and err = "''expected }''"
        and gocode = sample_gocode and fl = sample_flags and args = ?args] f g k c
    by blast
  show ?thesis
    using r1 r2 r3 d j by (simp add: empty_world_def)
qed

text \<open>
  Claim C4 as stated fails for a formatting failure: with generated types that the
  formatter rejects, the run ends with the formatter's error and \<open>out/svc/types.go\<close>
  holds the rejected text.
\<close>

theorem output_on_failure_counterexample:
  "fst (main (sample_env (Inr ()) (Inr sample_gocode) sample_format) sample_flags
          [''gowsdl'', ''-d'', ''out'', ''-p'', ''svc'', ''svc.wsdl''] empty_world) =
     Fatal ''expected }'' \<and>
   files (snd (main (sample_env (Inr ()) (Inr sample_gocode) sample_format) sample_flags
          [''gowsdl'', ''-d'', ''out'', ''-p'', ''svc'', ''svc.wsdl''] empty_world))
     ''out/svc/types.go'' = Some ''package svc; type A struct {''"
  by (simp add: main_def generate_def outfile_def Let_def sample_env_def sample_flags_def
      sample_gocode_def sample_format_def sample_Join_def empty_world_def artifact_data_def
      gocode_get_def file_Create_def file_Write_def)

text \<open>
  The check of the output file name: when the value of \<open>-o\<close> is the last argument, the run
  ends with the world as it was, nothing loaded and nothing created.
\<close>

lemma main_same_file:
  assumes "flag_outFile fl = last args"
  shows "snd (main e fl args w) = w \<and>
         (fst (main e fl args w) = Exit0 \<or>
          fst (main e fl args w) = Fatal ''Output file cannot be the same WSDL file'')"
  using assms by (simp add: main_def Let_def)

text \<open>
  Claim C10. The check compares the WSDL path with the value of \<open>-o\<close> only, and the
  artifacts are not written to the file that \<open>-o\<close> names but to \<open>types.go\<close> and
  \<open>operations.go\<close> in the package directory. The run of
  \<open>gowsdl -d out -p svc out/svc/types.go\<close> passes the check, hands the path to the
  generator and then creates the same path as its first output file.
\<close>

theorem wsdl_opened_as_output:
  "created (trace (snd (main (sample_env (Inr ()) (Inr sample_gocode) Inr) sample_flags
      [''gowsdl'', ''-d'', ''out'', ''-p'', ''svc'', ''out/svc/types.go''] empty_world))) =
     [''out/svc/types.go'', ''out/svc/operations.go''] \<and>
   trace (snd (main (sample_env (Inr ()) (Inr sample_gocode) Inr) sample_flags
      [''gowsdl'', ''-d'', ''out'', ''-p'', ''svc'', ''out/svc/types.go''] empty_world)) ! 0 =
     CallNewGoWSDL ''out/svc/types.go''"
  by (simp add: main_def generate_def outfile_def Let_def sample_env_def sample_flags_def
      sample_gocode_def sample_Join_def empty_world_def artifact_data_def
      gocode_get_def file_Create_def file_Write_def)


end
